theory Spec2Isabelle
  imports Complex_Main "HOL-Library.Monad_Syntax"
begin

section \<open>Numbers\<close>

text \<open>
  The scoring engine of \<^verbatim>\<open>src/App.tsx\<close> computes on JavaScript numbers. In the
  measurements and the scores they are modelled as mathematical reals, with the program's
  own decimal rounding (\<^verbatim>\<open>Math.round\<close>) inside the model and the rounding error of
  IEEE doubles outside it. The statistics of \<^verbatim>\<open>withUncertainty\<close> are modelled in double
  precision, every operation rounded to the nearest double (see \<open>fl\<close> below): what they
  report for equal samples is decided by that rounding.
  Two places of the program can produce \<^verbatim>\<open>NaN\<close> from real inputs (\<^verbatim>\<open>Math.pow\<close> of a
  negative base, and \<^verbatim>\<open>0 / 0\<close> over an empty sample); values computed from them have
  the type \<open>number\<close>, in which \<^verbatim>\<open>NaN\<close> is a value of its own and every operation
  propagates it, as JavaScript does.
  An exception (reading \<^verbatim>\<open>.x\<close> of an undefined array element) is the result \<open>None\<close>.
\<close>

datatype number = NaN | Num real

fun lift1 :: "(real \<Rightarrow> real) \<Rightarrow> number \<Rightarrow> number" where
  "lift1 f NaN = NaN"
| "lift1 f (Num a) = Num (f a)"

fun lift2 :: "(real \<Rightarrow> real \<Rightarrow> real) \<Rightarrow> number \<Rightarrow> number \<Rightarrow> number" where
  "lift2 f (Num a) (Num b) = Num (f a b)"
| "lift2 f _ _ = NaN"

definition Math_round :: "real \<Rightarrow> real" where
  \<comment> \<open>\<^verbatim>\<open>Math.round\<close>: the nearest integer, a tie going up.\<close>
  "Math_round v = of_int \<lfloor>v + 1 / 2\<rfloor>"

definition Math_hypot :: "real \<Rightarrow> real \<Rightarrow> real" where
  "Math_hypot a b = sqrt (a * a + b * b)"

definition Math_pow :: "real \<Rightarrow> real \<Rightarrow> number" where
  \<comment> \<open>\<^verbatim>\<open>Math.pow\<close> at a positive exponent that is not an integer (the program's only
      exponent is 1.8): \<^verbatim>\<open>NaN\<close> for a negative base, 0 at base 0.\<close>
  "Math_pow b e = (if b < 0 then NaN else Num (b powr e))"

definition clamp :: "real \<Rightarrow> real \<Rightarrow> real \<Rightarrow> real" where
  "clamp v lo hi = min hi (max lo v)"

definition round1 :: "real \<Rightarrow> real" where
  "round1 v = Math_round (v * 10) / 10"

definition round2 :: "real \<Rightarrow> real" where
  "round2 v = Math_round (v * 100) / 100"

definition round3 :: "real \<Rightarrow> real" where
  "round3 v = Math_round (v * 1000) / 1000"

definition euclid :: "real \<times> real \<Rightarrow> real \<times> real \<Rightarrow> real" where
  "euclid p1 p2 = Math_hypot (fst p1 - fst p2) (snd p1 - snd p2)"

section \<open>Methodology constants\<close>

definition weights_symmetry :: real where "weights_symmetry = 35 / 100"
definition weights_golden :: real where "weights_golden = 25 / 100"
definition weights_harmony :: real where "weights_harmony = 40 / 100"

definition idealMin :: real where "idealMin = 28 / 100"
definition idealMax :: real where "idealMax = 36 / 100"
definition low :: real where "low = 26 / 100"
definition high :: real where "high = 38 / 100"

definition uncertainty_repeats :: nat where "uncertainty_repeats = 40"
definition jitterSigma :: real where "jitterSigma = 3 / 1000"

section \<open>Landmarks and the symmetry score\<close>

text \<open>
  \<^verbatim>\<open>type LM = { x: number; y: number; z?: number }\<close>. The fields carry the prefix
  \<open>lm_\<close>; an absent \<^verbatim>\<open>z\<close> is \<open>None\<close>.
\<close>

record LM =
  lm_x :: real
  lm_y :: real
  lm_z :: "real option"

definition lm_at :: "LM list \<Rightarrow> nat \<Rightarrow> LM option" where
  \<comment> \<open>\<^verbatim>\<open>lms[i]\<close> followed by a field read: past the end the element is undefined and
      the read throws.\<close>
  "lm_at lms i = (if i < length lms then Some (lms ! i) else None)"

definition symmetricPairs :: "(nat \<times> nat) list" where
  "symmetricPairs =
     [(234, 454), (93, 323), (132, 361), (58, 288), (127, 356),
      (50, 280), (101, 330), (205, 425), (98, 327), (55, 285),
      (65, 295), (107, 336), (52, 282), (66, 296), (3, 13)]"

definition pairDiff :: "LM list \<Rightarrow> nat \<times> nat \<Rightarrow> real option" where
  \<comment> \<open>the callback of \<^verbatim>\<open>symmetricPairs.map\<close>\<close>
  "pairDiff landmarks ij =
     do { a \<leftarrow> lm_at landmarks (fst ij);
          b \<leftarrow> lm_at landmarks (snd ij);
          Some \<bar>lm_x a - (1 - lm_x b)\<bar> }"

definition calcSymmetryScore :: "LM list \<Rightarrow> real option" where
  "calcSymmetryScore landmarks =
     do { diffs \<leftarrow> those (map (pairDiff landmarks) symmetricPairs);
          let mean = foldl (+) 0 diffs / real (length diffs);
          Some (max 0 (Math_round ((100 - mean * 1000) * 100) / 100)) }"

section \<open>Measurements, ratios and the golden score\<close>

definition project :: "nat \<Rightarrow> real \<Rightarrow> real \<Rightarrow> LM list \<Rightarrow> (real \<times> real) option" where
  "project idx w h lms =
     do { p \<leftarrow> lm_at lms idx; Some (lm_x p * w, lm_y p * h) }"

text \<open>
  The keys of the ratio and target tables, in the order the source inserts them:
  face length / face width, inter-ocular distance / mouth width, inter-ocular distance /
  face width, nose to chin / face length, lip height / mouth width.
\<close>

datatype ratio_key =
  LengthOverWidth | EyeOverMouth | EyeOverFace | NoseChinOverLength | LipOverMouth

record golden_values =
  v_faceLength :: real
  v_faceWidth :: real
  v_eyeDist :: real
  v_mouthWidth :: real
  v_noseToChin :: real
  v_lipHeight :: real
  v_score :: real
  v_ratios :: "(ratio_key \<times> real) list"

record GoldenOut =
  score :: real
  values_out :: golden_values
  faceWidth :: real
  eyeDist :: real
  eyeL :: "real \<times> real"
  eyeR :: "real \<times> real"
  ratios :: "(ratio_key \<times> real) list"
  targets :: "(ratio_key \<times> real) list"

definition goldenTargets :: "(ratio_key \<times> real) list" where
  "goldenTargets =
     [(LengthOverWidth, 1618 / 1000), (EyeOverMouth, 1618 / 1000),
      (EyeOverFace, 32 / 100), (NoseChinOverLength, 618 / 1000),
      (LipOverMouth, 2 / 10)]"

definition relError :: "(ratio_key \<times> real) list \<Rightarrow> (ratio_key \<times> real) list \<Rightarrow> ratio_key \<Rightarrow> real" where
  \<comment> \<open>the callback of \<^verbatim>\<open>Object.keys(ratios).map\<close>; every key of the ratio table is a
      key of the target table\<close>
  "relError rs ts k =
     (let ideal = the (map_of ts k); val = the (map_of rs k)
      in if ideal > 0 then \<bar>val - ideal\<bar> / ideal else 1)"

definition analyzeGolden :: "real \<Rightarrow> real \<Rightarrow> LM list \<Rightarrow> GoldenOut option" where
  "analyzeGolden imageW imageH lms =
     do { p_top \<leftarrow> project 10 imageW imageH lms;
          p_bottom \<leftarrow> project 152 imageW imageH lms;
          p_left \<leftarrow> project 234 imageW imageH lms;
          p_right \<leftarrow> project 454 imageW imageH lms;
          eL \<leftarrow> project 133 imageW imageH lms;
          eR \<leftarrow> project 362 imageW imageH lms;
          mouthL \<leftarrow> project 61 imageW imageH lms;
          mouthR \<leftarrow> project 291 imageW imageH lms;
          nose \<leftarrow> project 1 imageW imageH lms;
          chin \<leftarrow> project 152 imageW imageH lms;
          lipU \<leftarrow> project 13 imageW imageH lms;
          lipD \<leftarrow> project 14 imageW imageH lms;
          Some (let faceLength = euclid p_top p_bottom;
              fWidth = euclid p_left p_right;
              eDist = euclid eL eR;
              mouthWidth = euclid mouthL mouthR;
              noseToChin = euclid nose chin;
              lipHeight = euclid lipU lipD;
              rs = [(LengthOverWidth, if fWidth > 0 then faceLength / fWidth else 0),
                    (EyeOverMouth, if mouthWidth > 0 then eDist / mouthWidth else 0),
                    (EyeOverFace, if fWidth > 0 then eDist / fWidth else 0),
                    (NoseChinOverLength, if faceLength > 0 then noseToChin / faceLength else 0),
                    (LipOverMouth, if mouthWidth > 0 then lipHeight / mouthWidth else 0)];
              ts = goldenTargets;
              relErrors = map (relError rs ts) (map fst rs);
              avgDev = foldl (+) 0 relErrors / real (length relErrors);
              sc = Math_round (100 * exp (- 5 * avgDev) * 100) / 100;
              vals = \<lparr>v_faceLength = round2 faceLength, v_faceWidth = round2 fWidth,
                      v_eyeDist = round2 eDist, v_mouthWidth = round2 mouthWidth,
                      v_noseToChin = round2 noseToChin, v_lipHeight = round2 lipHeight,
                      v_score = sc, v_ratios = map (\<lambda>(k, v). (k, round3 v)) rs\<rparr>
            in \<lparr>score = sc, values_out = vals, faceWidth = fWidth, eyeDist = eDist,
                eyeL = eL, eyeR = eR, ratios = rs, targets = ts\<rparr>) }"

section \<open>Composite scores and feedback\<close>

text \<open>
  The sentences of \<^verbatim>\<open>buildFeedback\<close>, one constructor per string literal of the source
  (very high, good and marked symmetry; very close, slightly off and far from the golden
  ratio; harmonious, narrow and wide eye spacing; the closing remark). The function
  returns the array \<^verbatim>\<open>lines\<close>, which the source joins with newlines; no sentence
  contains a newline, so the lines of the returned text are the elements of the list.
\<close>

datatype sentence =
  SymVeryHigh | SymGood | SymMarked
| GoldVeryClose | GoldSlight | GoldFar
| EyeHarmonious | EyeNarrow | EyeWide
| Remark

definition buildFeedback :: "real \<Rightarrow> real \<Rightarrow> real \<Rightarrow> sentence list" where
  "buildFeedback symmetry golden eyeSpacingRatio =
     [if symmetry > 90 then SymVeryHigh else if symmetry > 75 then SymGood else SymMarked]
     @ [if golden > 90 then GoldVeryClose else if golden > 75 then GoldSlight else GoldFar]
     @ (if eyeSpacingRatio > 0 then
          (if eyeSpacingRatio > idealMin \<and> eyeSpacingRatio < idealMax then [EyeHarmonious]
           else if eyeSpacingRatio \<le> low then [EyeNarrow]
           else if eyeSpacingRatio \<ge> high then [EyeWide]
           else [])
        else [])
     @ [Remark]"

text \<open>
  The locals of \<^verbatim>\<open>computeOverall\<close>, each a function of the four arguments:
  \<open>co_eye\<close> is the pair (\<^verbatim>\<open>eyeScore\<close>, \<^verbatim>\<open>eyeSpacingRatio\<close>) after the
  \<^verbatim>\<open>if (faceWidth > 0)\<close> block, \<open>co_harmony\<close>, \<open>co_overall\<close> and \<open>co_uniqueness\<close>
  are the constants of these names before the rounding of the returned object.
\<close>

definition co_eye :: "real \<Rightarrow> real \<Rightarrow> real \<times> real" where
  "co_eye fWidth eDist =
     (if fWidth > 0 then
        (let eyeSpacingRatio = eDist / fWidth
         in (if eyeSpacingRatio > idealMin \<and> eyeSpacingRatio < idealMax then 100
             else if eyeSpacingRatio \<le> low \<or> eyeSpacingRatio \<ge> high then 60
             else 80,
             eyeSpacingRatio))
      else (75, 0))"

definition co_harmony :: "real \<Rightarrow> real \<Rightarrow> real \<Rightarrow> real \<Rightarrow> real" where
  "co_harmony symmetry golden fWidth eDist =
     (let base = 4 / 10 * symmetry + 4 / 10 * golden;
          eyeScore = fst (co_eye fWidth eDist);
          base = base + 2 / 10 * eyeScore
      in clamp base 20 100)"

definition co_overall :: "real \<Rightarrow> real \<Rightarrow> real \<Rightarrow> real \<Rightarrow> number" where
  "co_overall symmetry golden fWidth eDist =
     (let hm = co_harmony symmetry golden fWidth eDist;
          weighted = weights_symmetry * symmetry + weights_golden * golden
                     + weights_harmony * hm;
          raw = weighted / 100;
          scaled = Math_pow raw (18 / 10)
      in lift1 (\<lambda>s. clamp (4 + s * 9) 1 10) scaled)"

definition co_uniqueness :: "real \<Rightarrow> real \<Rightarrow> real \<Rightarrow> real \<Rightarrow> real" where
  "co_uniqueness symmetry golden fWidth eDist =
     (let hm = co_harmony symmetry golden fWidth eDist;
          asymFactor = \<bar>50 - symmetry\<bar> / 50;
          goldenDev = \<bar>60 - golden\<bar> / 60;
          harmVar = \<bar>70 - hm\<bar> / 70;
          uniqRaw = 4 / 10 * asymFactor + 3 / 10 * goldenDev + 3 / 10 * harmVar
      in clamp (5 + 4 * uniqRaw) 1 10)"

record overall_out =
  harmony :: real
  overall :: number
  uniqueness :: real
  feedback :: "sentence list"

definition computeOverall :: "real \<Rightarrow> real \<Rightarrow> real \<Rightarrow> real \<Rightarrow> overall_out" where
  "computeOverall symmetry golden fWidth eDist =
     (let eyeSpacingRatio = snd (co_eye fWidth eDist);
          fb = buildFeedback symmetry golden eyeSpacingRatio
      in \<lparr>harmony = round2 (co_harmony symmetry golden fWidth eDist),
          overall = lift1 round1 (co_overall symmetry golden fWidth eDist),
          uniqueness = round1 (co_uniqueness symmetry golden fWidth eDist),
          feedback = fb\<rparr>)"

definition baseScores :: "real \<Rightarrow> real \<Rightarrow> LM list \<Rightarrow> (real \<times> GoldenOut \<times> overall_out) option" where
  \<comment> \<open>\<^verbatim>\<open>symmetryBase\<close>, \<^verbatim>\<open>gBase\<close> and \<^verbatim>\<open>overallBase\<close> of \<^verbatim>\<open>analyze\<close>\<close>
  "baseScores useW useH baseLm =
     do { symmetryBase \<leftarrow> calcSymmetryScore baseLm;
          gBase \<leftarrow> analyzeGolden useW useH baseLm;
          Some (symmetryBase, gBase,
                computeOverall symmetryBase (score gBase) (faceWidth gBase) (eyeDist gBase)) }"

section \<open>Double-precision arithmetic\<close>

text \<open>
  \<open>fl x\<close> is the double nearest to the real \<open>x\<close>, a tie going to the even significand:
  for \<open>2\<^sup>e \<le> \<bar>x\<bar> < 2\<^sup>e\<^sup>+\<^sup>1\<close> the doubles are the multiples of \<open>2\<^sup>e\<^sup>-\<^sup>5\<^sup>2\<close>. It covers
  the normal range of doubles: overflow to infinity and underflow to subnormal numbers
  are not modelled, and the scores (at most 100, with one or two decimals) and the
  statistics computed from them are far from both. The operations \<^verbatim>\<open>+\<close>, \<^verbatim>\<open>-\<close>,
  \<^verbatim>\<open>*\<close>, \<^verbatim>\<open>/\<close> and \<^verbatim>\<open>Math.sqrt\<close> on doubles return the exact result rounded by \<open>fl\<close>.
\<close>

definition round_even :: "real \<Rightarrow> int" where
  "round_even y =
     (let f = \<lfloor>y\<rfloor>; r = y - of_int f
      in if r < 1 / 2 then f else if 1 / 2 < r then f + 1
         else if even f then f else f + 1)"

definition fl_at :: "int \<Rightarrow> real \<Rightarrow> real" where
  \<comment> \<open>rounding to the doubles of the binade with exponent \<open>e\<close>\<close>
  "fl_at e x = of_int (round_even (x / 2 powi (e - 52))) * 2 powi (e - 52)"

definition fl :: "real \<Rightarrow> real" where
  "fl x = (if x = 0 then 0 else fl_at \<lfloor>log 2 \<bar>x\<bar>\<rfloor> x)"

definition d_add :: "real \<Rightarrow> real \<Rightarrow> real" where "d_add a b = fl (a + b)"
definition d_sub :: "real \<Rightarrow> real \<Rightarrow> real" where "d_sub a b = fl (a - b)"
definition d_mul :: "real \<Rightarrow> real \<Rightarrow> real" where "d_mul a b = fl (a * b)"
definition d_div :: "real \<Rightarrow> real \<Rightarrow> real" where "d_div a b = fl (a / b)"
definition d_sqrt :: "real \<Rightarrow> real" where "d_sqrt a = fl (sqrt a)"

section \<open>Jitter and uncertainty\<close>

text \<open>
  \<^verbatim>\<open>Math.random\<close> is modelled by the sequence \<open>src\<close> of the values it returns,
  each in \<^verbatim>\<open>[0, 1)\<close>, and the index of the next draw, which every function that draws
  takes and returns. \<^verbatim>\<open>jitterLandmarks\<close> draws twice per landmark, for \<^verbatim>\<open>x\<close> and
  then for \<^verbatim>\<open>y\<close>.
\<close>

type_synonym rng = "nat \<Rightarrow> real"

definition rnd :: "rng \<Rightarrow> real \<Rightarrow> nat \<Rightarrow> real" where
  "rnd src sigma n = (src n * 2 - 1) * sigma"

fun jitterLandmarks :: "rng \<Rightarrow> LM list \<Rightarrow> real \<Rightarrow> nat \<Rightarrow> LM list \<times> nat" where
  "jitterLandmarks src [] sigma n = ([], n)"
| "jitterLandmarks src (p # ps) sigma n =
     (let q = \<lparr>lm_x = clamp (lm_x p + rnd src sigma n) 0 1,
               lm_y = clamp (lm_y p + rnd src sigma (n + 1)) 0 1,
               lm_z = lm_z p\<rparr>;
          (qs, n') = jitterLandmarks src ps sigma (n + 2)
      in (q # qs, n'))"

record uncertainty =
  mean :: number
  sd :: number
  ci95 :: number


definition div_length :: "number \<Rightarrow> nat \<Rightarrow> number" where
  \<comment> \<open>\<^verbatim>\<open>vals.reduce(..., 0) / vals.length\<close>: over an empty array the sum is the
      initial 0 and \<^verbatim>\<open>0 / 0\<close> is \<^verbatim>\<open>NaN\<close>\<close>
  "div_length a n = (if n = 0 then NaN else lift1 (\<lambda>v. d_div v (real n)) a)"

definition uncertaintyOf :: "number list \<Rightarrow> uncertainty" where
  \<comment> \<open>the statistics of \<^verbatim>\<open>withUncertainty\<close> after its loop, on the array \<^verbatim>\<open>vals\<close> of
      doubles; \<^verbatim>\<open>Math.sqrt\<close> is applied to a mean of squares, which is never negative\<close>
  "uncertaintyOf vals =
     (let m = div_length (foldl (lift2 d_add) (Num 0) vals) (length vals);
          s = lift1 d_sqrt
                (div_length
                   (foldl (\<lambda>a b. lift2 d_add a
                             (lift2 d_mul (lift2 d_sub b m) (lift2 d_sub b m)))
                      (Num 0) vals)
                   (length vals))
      in \<lparr>mean = m, sd = s, ci95 = lift2 d_mul (Num (fl (196 / 100))) s\<rparr>)"



definition symScalar :: "LM list \<Rightarrow> number option" where
  "symScalar lm = map_option Num (calcSymmetryScore lm)"

definition goldScalar :: "real \<Rightarrow> real \<Rightarrow> LM list \<Rightarrow> number option" where
  "goldScalar useW useH lm = map_option (\<lambda>g. Num (score g)) (analyzeGolden useW useH lm)"

definition harmScalar :: "real \<Rightarrow> real \<Rightarrow> LM list \<Rightarrow> number option" where
  "harmScalar useW useH lm =
     do { g \<leftarrow> analyzeGolden useW useH lm;
          s \<leftarrow> calcSymmetryScore lm;
          Some (Num (harmony (computeOverall s (score g) (faceWidth g) (eyeDist g)))) }"

definition overallScalar :: "real \<Rightarrow> real \<Rightarrow> LM list \<Rightarrow> number option" where
  "overallScalar useW useH lm =
     do { g \<leftarrow> analyzeGolden useW useH lm;
          s \<leftarrow> calcSymmetryScore lm;
          Some (overall (computeOverall s (score g) (faceWidth g) (eyeDist g))) }"

definition uniqScalar :: "real \<Rightarrow> real \<Rightarrow> LM list \<Rightarrow> number option" where
  "uniqScalar useW useH lm =
     do { g \<leftarrow> analyzeGolden useW useH lm;
          s \<leftarrow> calcSymmetryScore lm;
          Some (Num (uniqueness (computeOverall s (score g) (faceWidth g) (eyeDist g)))) }"

section \<open>Reference landmark sets\<close>

text \<open>
  Two landmark sets of the detector's size (468 points) on which the theorems below are
  instantiated. \<open>ideal_face\<close> is mirrored about \<open>x = 1/2\<close> and engineered so that, on a
  frame of 1000 by 1000 pixels, the five ratios are exactly their targets: face width 500,
  face length 809, inter-ocular distance 160, mouth width 80000/809, nose to chin
  499.962 and lip height 16000/809. \<open>degenerate_face\<close> has all its points at one place.
\<close>

definition pt :: "real \<Rightarrow> real \<Rightarrow> LM" where
  "pt a b = \<lparr>lm_x = a, lm_y = b, lm_z = None\<rparr>"

definition ideal_face :: "LM list" where
  "ideal_face =
     (replicate 468 (pt (1 / 2) (1 / 2)))
       [10 := pt (1 / 2) (1 / 10), 152 := pt (1 / 2) (909 / 1000),
        234 := pt (1 / 4) (1 / 2), 454 := pt (3 / 4) (1 / 2),
        133 := pt (42 / 100) (4 / 10), 362 := pt (58 / 100) (4 / 10),
        61 := pt (1 / 2 - 40 / 809) (7 / 10), 291 := pt (1 / 2 + 40 / 809) (7 / 10),
        1 := pt (1 / 2) (409038 / 1000000),
        13 := pt (1 / 2) (7 / 10), 14 := pt (1 / 2) (7 / 10 + 16 / 809)]"

definition degenerate_face :: "LM list" where
  "degenerate_face = replicate 468 (pt (3 / 10) (7 / 10))"

section \<open>The eye-spacing rule as the specification words it\<close>



section \<open>Rounding, sums and distances\<close>

lemma Math_round_ge: "of_int k \<le> v \<Longrightarrow> of_int k \<le> Math_round v"
  unfolding Math_round_def by (simp add: le_floor_iff)

lemma Math_round_le: "v \<le> of_int k \<Longrightarrow> Math_round v \<le> of_int k"
proof -
  assume "v \<le> of_int k"
  then have "v + 1 / 2 < of_int (k + 1)" by simp
  then have "\<lfloor>v + 1 / 2\<rfloor> < k + 1" by (simp only: floor_less_iff)
  then show ?thesis unfolding Math_round_def by simp
qed

lemma Math_round_of_int: "Math_round (of_int k) = of_int k"
proof -
  have "\<lfloor>real_of_int k + 1 / 2\<rfloor> = k" by (rule floor_unique) simp_all
  then show ?thesis unfolding Math_round_def by simp
qed

lemma Math_round_0: "Math_round 0 = 0"
  using Math_round_of_int [of 0] by simp

lemma foldl_plus_sum_list: "foldl (+) a xs = a + sum_list (xs :: real list)"
  by (induction xs arbitrary: a) simp_all

lemma sum_list_map_zero:
  "(\<And>x. x \<in> set xs \<Longrightarrow> f x = 0) \<Longrightarrow> sum_list (map f xs) = (0::real)"
  by (induction xs) simp_all

lemma those_map_Some:
  "(\<And>x. x \<in> set xs \<Longrightarrow> f x = Some (g x)) \<Longrightarrow> those (map f xs) = Some (map g xs)"
  by (induction xs) simp_all

lemma euclid_same_y: "euclid (a, c) (b, c) = \<bar>a - b\<bar>"
  by (simp add: euclid_def Math_hypot_def)

lemma euclid_same_x: "euclid (c, a) (c, b) = \<bar>a - b\<bar>"
  by (simp add: euclid_def Math_hypot_def)

lemma euclid_self: "euclid p p = 0"
  by (simp add: euclid_def Math_hypot_def)

section \<open>The symmetry score\<close>

lemma pairDiff_defined:
  "fst ij < length lms \<Longrightarrow> snd ij < length lms \<Longrightarrow>
   pairDiff lms ij = Some \<bar>lm_x (lms ! fst ij) - (1 - lm_x (lms ! snd ij))\<bar>"
  by (simp add: pairDiff_def lm_at_def)

lemma calcSymmetryScore_defined:
  assumes "\<forall>(i, j) \<in> set symmetricPairs. i < length lms \<and> j < length lms"
  shows "calcSymmetryScore lms =
    Some (max 0 (Math_round ((100 -
      sum_list (map (\<lambda>ij. \<bar>lm_x (lms ! fst ij) - (1 - lm_x (lms ! snd ij))\<bar>) symmetricPairs)
        / 15 * 1000) * 100) / 100))"
proof -
  have "those (map (pairDiff lms) symmetricPairs) =
        Some (map (\<lambda>ij. \<bar>lm_x (lms ! fst ij) - (1 - lm_x (lms ! snd ij))\<bar>) symmetricPairs)"
    using assms by (intro those_map_Some pairDiff_defined) auto
  moreover have "length symmetricPairs = 15" by (simp add: symmetricPairs_def)
  ultimately show ?thesis
    by (simp add: calcSymmetryScore_def foldl_plus_sum_list)
qed

lemma symmetricPairs_bound:
  "454 < length lms \<Longrightarrow> \<forall>(i, j) \<in> set symmetricPairs. i < length lms \<and> j < length lms"
  by (simp add: symmetricPairs_def)

lemma calcSymmetryScore_nonneg:
  assumes "454 < length lms"
  shows "\<exists>s. calcSymmetryScore lms = Some s \<and> 0 \<le> s"
  by (simp add: calcSymmetryScore_defined [OF symmetricPairs_bound [OF assms]])

lemma calcSymmetryScore_mirrored:
  assumes "\<forall>(i, j) \<in> set symmetricPairs. i < length lms \<and> j < length lms"
    and "\<forall>(i, j) \<in> set symmetricPairs. lm_x (lms ! i) = 1 - lm_x (lms ! j)"
  shows "calcSymmetryScore lms = Some 100"
proof -
  have "sum_list (map (\<lambda>ij. \<bar>lm_x (lms ! fst ij) - (1 - lm_x (lms ! snd ij))\<bar>)
          symmetricPairs) = 0"
    using assms(2) by (intro sum_list_map_zero) auto
  moreover have "Math_round 10000 = 10000" using Math_round_of_int [of 10000] by simp
  ultimately show ?thesis
    by (simp add: calcSymmetryScore_defined [OF assms(1)])
qed

lemma ideal_face_mirrored:
  "\<forall>(i, j) \<in> set symmetricPairs. lm_x (ideal_face ! i) = 1 - lm_x (ideal_face ! j)"
  by (simp add: symmetricPairs_def ideal_face_def pt_def)

text \<open>
  C2. On every landmark list in which all indices of the bilateral pair table are
  defined, \<open>calcSymmetryScore\<close> returns a value between 0 and 100; and when every pair
  is perfectly mirrored (\<open>x\<^sub>i = 1 - x\<^sub>j\<close>) it returns exactly 100.
\<close>

theorem calcSymmetryScore_range:
  assumes "\<forall>(i, j) \<in> set symmetricPairs. i < length lms \<and> j < length lms"
  shows "(\<exists>s. calcSymmetryScore lms = Some s \<and> 0 \<le> s \<and> s \<le> 100) \<and>
         ((\<forall>(i, j) \<in> set symmetricPairs. lm_x (lms ! i) = 1 - lm_x (lms ! j))
            \<longrightarrow> calcSymmetryScore lms = Some 100)"
proof (intro conjI impI)
  let ?d = "\<lambda>ij. \<bar>lm_x (lms ! fst ij) - (1 - lm_x (lms ! snd ij))\<bar>"
  let ?m = "sum_list (map ?d symmetricPairs) / 15"
  have "0 \<le> sum_list (map ?d symmetricPairs)" by (rule sum_list_nonneg) auto
  then have m: "0 \<le> ?m" by simp
  have "(100 - ?m * 1000) * 100 \<le> of_int 10000" using m by simp
  then have "Math_round ((100 - ?m * 1000) * 100) \<le> of_int 10000" by (rule Math_round_le)
  then have "max 0 (Math_round ((100 - ?m * 1000) * 100) / 100) \<le> 100" by simp
  then show "\<exists>s. calcSymmetryScore lms = Some s \<and> 0 \<le> s \<and> s \<le> 100"
    by (simp add: calcSymmetryScore_defined [OF assms])
next
  assume "\<forall>(i, j) \<in> set symmetricPairs. lm_x (lms ! i) = 1 - lm_x (lms ! j)"
  with assms show "calcSymmetryScore lms = Some 100" by (rule calcSymmetryScore_mirrored)
qed

theorem calcSymmetryScore_range_witness:
  "list_all (\<lambda>(i, j). i < length ideal_face \<and> j < length ideal_face) symmetricPairs
   \<and> list_all (\<lambda>(i, j). lm_x (ideal_face ! i) = 1 - lm_x (ideal_face ! j)) symmetricPairs
   \<and> (\<exists>s. calcSymmetryScore ideal_face = Some s \<and> 0 \<le> s \<and> s \<le> 100)
   \<and> calcSymmetryScore ideal_face = Some 100"
proof -
  have h1: "\<forall>(i, j) \<in> set symmetricPairs. i < length ideal_face \<and> j < length ideal_face"
    by (simp add: symmetricPairs_def ideal_face_def)
  note h2 = ideal_face_mirrored
  have l1: "list_all (\<lambda>(i, j). i < length ideal_face \<and> j < length ideal_face) symmetricPairs"
    using h1 by (simp only: list_all_iff)
  have l2: "list_all (\<lambda>(i, j). lm_x (ideal_face ! i) = 1 - lm_x (ideal_face ! j)) symmetricPairs"
    using h2 by (simp only: list_all_iff)
  from calcSymmetryScore_range [OF h1] h2
  have "(\<exists>s. calcSymmetryScore ideal_face = Some s \<and> 0 \<le> s \<and> s \<le> 100)"
    and "calcSymmetryScore ideal_face = Some 100" by blast+
  with l1 l2 show ?thesis by (intro conjI)
qed

section \<open>The golden score\<close>

lemma exp_1_bounds: "2718 / 1000 < exp (1::real) \<and> exp (1::real) < 2719 / 1000"
proof -
  obtain t :: real where t: "\<bar>t\<bar> \<le> \<bar>1\<bar>"
    and e: "exp 1 = (\<Sum>m<8. (1 ^ m) / fact m) + (exp t / fact 8) * 1 ^ 8"
    using Maclaurin_exp_le [of 1 8] by blast
  have s: "(\<Sum>m<8. (1 ^ m) / fact m) = (685 / 252 :: real)"
    by (simp add: lessThan_Suc eval_nat_numeral)
  have "t \<le> 1" using t by simp
  then have "exp t \<le> exp 1" by simp
  then have up: "exp t \<le> 3" using exp_le by linarith
  have lo: "0 < exp t" by simp
  have f: "fact 8 = (40320 :: real)" by (simp add: eval_nat_numeral)
  have "exp 1 = 685 / 252 + exp t / 40320" using e s f by simp
  then show ?thesis using up lo by linarith
qed

lemma exp_5_bounds: "1482 / 10 < exp (5::real) \<and> exp (5::real) < 149"
proof -
  have e5: "exp (5::real) = exp 1 ^ 5" using exp_of_nat_mult [of 5 "1::real"] by simp
  have "(2718 / 1000) ^ 5 < exp (1::real) ^ 5"
    using exp_1_bounds by (intro power_strict_mono) simp_all
  moreover have "exp (1::real) ^ 5 < (2719 / 1000) ^ 5"
    using exp_1_bounds by (intro power_strict_mono) simp_all
  moreover have "1482 / 10 < (2718 / 1000 :: real) ^ 5" by (simp add: power_divide)
  moreover have "(2719 / 1000 :: real) ^ 5 < 149" by (simp add: power_divide)
  ultimately show ?thesis unfolding e5 by linarith
qed

lemma golden_score_at_one: "Math_round (10000 * exp (- 5 :: real)) = 67"
proof -
  define r :: real where "r = 1 / exp 5"
  have inv: "exp (- 5 :: real) = r" by (simp add: r_def exp_minus inverse_eq_divide)
  have "1 / exp (5::real) < 1 / (1482 / 10)"
    using exp_5_bounds by (intro divide_strict_left_mono) simp_all
  then have up: "r < 10 / 1482" by (simp add: r_def)
  have "1 / 149 < 1 / exp (5::real)"
    using exp_5_bounds by (intro divide_strict_left_mono) simp_all
  then have lo: "1 / 149 < r" by (simp only: r_def)
  have "of_int 67 \<le> 10000 * r + 1 / 2" using lo by simp
  moreover have "10000 * r + 1 / 2 < of_int 67 + 1" using up by simp
  ultimately have "\<lfloor>10000 * r + 1 / 2\<rfloor> = 67" by (rule floor_unique)
  then show ?thesis by (simp add: Math_round_def inv)
qed

lemma analyzeGolden_score:
  assumes "analyzeGolden w h lms = Some g"
  shows "score g =
           Math_round (100 * exp (- 5 * (foldl (+) 0 (map (relError (ratios g) (targets g))
              (map fst (ratios g))) / real (length (map (relError (ratios g) (targets g))
              (map fst (ratios g)))))) * 100) / 100"
  using assms unfolding analyzeGolden_def
  apply (simp only: bind_eq_Some_conv)
  apply (elim exE conjE)
  apply (simp only: option.inject Let_def)
  apply hypsubst
  apply (simp only: GoldenOut.select_convs)
  done

lemma project_Some:
  "i < length lms \<Longrightarrow> project i w h lms = Some (lm_x (lms ! i) * w, lm_y (lms ! i) * h)"
  by (simp add: project_def lm_at_def)

lemma analyzeGolden_defined:
  assumes "454 < length lms"
  shows "\<exists>g. analyzeGolden w h lms = Some g \<and> 0 \<le> score g"
proof -
  have p: "project i w h lms = Some (lm_x (lms ! i) * w, lm_y (lms ! i) * h)" if "i \<le> 454" for i
    using project_Some [of i lms w h] assms that by simp
  note ps = p [of 10] p [of 152] p [of 234] p [of 454] p [of 133] p [of 362]
    p [of 61] p [of 291] p [of 13] p [of 14]
  have p1: "project 1 w h lms = Some (lm_x (lms ! 1) * w, lm_y (lms ! 1) * h)"
    using project_Some [of 1 lms w h] assms by simp
  have "\<exists>g. analyzeGolden w h lms = Some g"
    unfolding analyzeGolden_def
    by (simp only: ps [simplified] p1 bind.bind_lunit) (rule exI, rule refl)
  then obtain g where g: "analyzeGolden w h lms = Some g" by blast
  have "of_int 0 \<le> Math_round (100 * exp (- 5 * (foldl (+) 0 (map (relError (ratios g) (targets g))
              (map fst (ratios g))) / real (length (map (relError (ratios g) (targets g))
              (map fst (ratios g)))))) * 100)"
    by (rule Math_round_ge) simp
  then have "0 \<le> score g" unfolding analyzeGolden_score [OF g] by simp
  with g show ?thesis by blast
qed

lemma analyzeGolden_targets:
  assumes "analyzeGolden w h lms = Some g"
  shows "targets g = goldenTargets"
  using assms unfolding analyzeGolden_def
  apply (simp only: bind_eq_Some_conv)
  apply (elim exE conjE)
  apply (simp only: option.inject Let_def)
  apply hypsubst
  apply (simp only: GoldenOut.select_convs)
  done

lemma analyzeGolden_eye_ratio:
  assumes "analyzeGolden w h lms = Some g"
  shows "map_of (ratios g) EyeOverFace
           = Some (if 0 < faceWidth g then eyeDist g / faceWidth g else 0)"
  using assms unfolding analyzeGolden_def
  apply (simp only: bind_eq_Some_conv)
  apply (elim exE conjE)
  apply (simp only: option.inject Let_def)
  apply hypsubst
  apply (simp only: GoldenOut.select_convs map_of.simps fst_conv snd_conv ratio_key.simps
           if_False if_True fun_upd_apply simp_thms)
  done

lemma analyzeGolden_length:
  assumes "analyzeGolden w h lms = Some g"
  shows "454 < length lms"
proof -
  from assms obtain p where "project 454 w h lms = Some p"
    unfolding analyzeGolden_def by (simp only: bind_eq_Some_conv) blast
  then show ?thesis by (simp add: project_def lm_at_def split: if_splits)
qed

lemma score_at_targets:
  assumes "analyzeGolden w h lms = Some g" and "ratios g = targets g"
  shows "score g = 100"
proof -
  have r: "ratios g = goldenTargets" and t: "targets g = goldenTargets"
    using assms analyzeGolden_targets by simp_all
  have "map (relError goldenTargets goldenTargets) (map fst goldenTargets) = [0, 0, 0, 0, 0]"
    by (simp add: goldenTargets_def relError_def)
  moreover have "Math_round 10000 = 10000" using Math_round_of_int [of 10000] by simp
  ultimately show ?thesis
    unfolding analyzeGolden_score [OF assms(1)] r t by simp
qed

lemma eye_ratio_at_targets:
  assumes "analyzeGolden w h lms = Some g" and "ratios g = targets g"
  shows "0 < faceWidth g \<and> eyeDist g / faceWidth g = 32 / 100"
proof -
  have "ratios g = goldenTargets" using assms analyzeGolden_targets by simp
  then have "map_of (ratios g) EyeOverFace = Some (32 / 100)"
    by (simp add: goldenTargets_def)
  then have "(if 0 < faceWidth g then eyeDist g / faceWidth g else 0) = 32 / 100"
    using analyzeGolden_eye_ratio [OF assms(1)] by simp
  then show ?thesis by (simp split: if_splits)
qed

lemma ideal_face_golden:
  "\<exists>g. analyzeGolden 1000 1000 ideal_face = Some g \<and> ratios g = targets g
       \<and> score g = 100 \<and> faceWidth g = 500 \<and> eyeDist g = 160"
  by (simp add: analyzeGolden_def project_def lm_at_def ideal_face_def pt_def Let_def
        euclid_same_x euclid_same_y goldenTargets_def relError_def
        Math_round_of_int [of 10000, simplified])

text \<open>
  C3. Whenever the five ratios measured by \<open>analyzeGolden\<close> are exactly the five
  targets (1.618, 1.618, 0.32, 0.618, 0.20), every relative error is 0 and the golden
  score is 100.
\<close>

theorem golden_score_exact_targets:
  assumes "analyzeGolden w h lms = Some g" and "ratios g = targets g"
  shows "score g = 100"
  using assms by (rule score_at_targets)

theorem golden_score_exact_targets_witness:
  "\<exists>g. analyzeGolden 1000 1000 ideal_face = Some g \<and> ratios g = targets g \<and> score g = 100"
proof -
  obtain g where g: "analyzeGolden 1000 1000 ideal_face = Some g" "ratios g = targets g"
    using ideal_face_golden by blast
  then show ?thesis using golden_score_exact_targets [of 1000 1000 ideal_face g] by simp
qed

lemma project_const:
  assumes "\<forall>p \<in> set lms. lm_x p = a \<and> lm_y p = b" and "i < length lms"
  shows "project i w h lms = Some (a * w, b * h)"
  using assms by (simp add: project_def lm_at_def)

text \<open>
  C4. On a landmark list of the detector's size whose points all have the same
  coordinates, \<open>analyzeGolden\<close> returns (it does not throw); any two projected points are
  at distance 0, so the six measured distances are 0; the five ratios are 0 by the
  zero-denominator rule, the five relative errors are 1, and the golden score is
  \<open>100 * exp (-5)\<close> rounded to two decimals, 0.67.
\<close>

theorem analyzeGolden_degenerate:
  assumes "454 < length lms" and "\<forall>p \<in> set lms. lm_x p = a \<and> lm_y p = b"
  shows "(\<forall>i<length lms. \<forall>j<length lms. \<exists>p q.
            project i w h lms = Some p \<and> project j w h lms = Some q \<and> euclid p q = 0)
         \<and> (\<exists>g. analyzeGolden w h lms = Some g
           \<and> faceWidth g = 0 \<and> eyeDist g = 0
           \<and> v_faceLength (values_out g) = 0 \<and> v_faceWidth (values_out g) = 0
           \<and> v_eyeDist (values_out g) = 0 \<and> v_mouthWidth (values_out g) = 0
           \<and> v_noseToChin (values_out g) = 0 \<and> v_lipHeight (values_out g) = 0
           \<and> map snd (ratios g) = [0, 0, 0, 0, 0]
           \<and> map snd (v_ratios (values_out g)) = [0, 0, 0, 0, 0]
           \<and> map (relError (ratios g) (targets g)) (map fst (ratios g)) = [1, 1, 1, 1, 1]
           \<and> score g = 67 / 100 \<and> v_score (values_out g) = 67 / 100)"
proof -
  have p: "project i w h lms = Some (a * w, b * h)" if "i \<le> 454" for i
    using project_const [OF assms(2), of i w h] assms(1) that by simp
  have d: "\<forall>i<length lms. \<forall>j<length lms. \<exists>p q.
             project i w h lms = Some p \<and> project j w h lms = Some q \<and> euclid p q = 0"
    using project_const [OF assms(2)] by (simp add: euclid_self)
  show ?thesis
    by (intro conjI d)
       (simp add: analyzeGolden_def p euclid_self Let_def relError_def goldenTargets_def
          round2_def round3_def Math_round_0 golden_score_at_one)
qed

theorem analyzeGolden_degenerate_witness:
  "454 < length degenerate_face
   \<and> list_all (\<lambda>p. lm_x p = 3 / 10 \<and> lm_y p = 7 / 10) degenerate_face
   \<and> (\<exists>p q. project 234 800 600 degenerate_face = Some p
          \<and> project 454 800 600 degenerate_face = Some q \<and> euclid p q = 0)
   \<and> (\<exists>g. analyzeGolden 800 600 degenerate_face = Some g
           \<and> faceWidth g = 0 \<and> eyeDist g = 0
           \<and> v_faceLength (values_out g) = 0 \<and> v_faceWidth (values_out g) = 0
           \<and> v_eyeDist (values_out g) = 0 \<and> v_mouthWidth (values_out g) = 0
           \<and> v_noseToChin (values_out g) = 0 \<and> v_lipHeight (values_out g) = 0
           \<and> map snd (ratios g) = [0, 0, 0, 0, 0]
           \<and> map snd (v_ratios (values_out g)) = [0, 0, 0, 0, 0]
           \<and> map (relError (ratios g) (targets g)) (map fst (ratios g)) = [1, 1, 1, 1, 1]
           \<and> score g = 67 / 100 \<and> v_score (values_out g) = 67 / 100)"
proof -
  have h1: "454 < length degenerate_face" by (simp add: degenerate_face_def)
  have h2: "\<forall>p \<in> set degenerate_face. lm_x p = 3 / 10 \<and> lm_y p = 7 / 10"
    by (simp add: degenerate_face_def pt_def)
  have l2: "list_all (\<lambda>p. lm_x p = 3 / 10 \<and> lm_y p = 7 / 10) degenerate_face"
    using h2 by (simp only: list_all_iff)
  note t = analyzeGolden_degenerate [OF h1 h2, of 800 600]
  have i: "234 < length degenerate_face" using h1 by simp
  from t i h1
  have d: "\<exists>p q. project 234 800 600 degenerate_face = Some p
          \<and> project 454 800 600 degenerate_face = Some q \<and> euclid p q = 0"
    by blast
  show ?thesis
    by (intro conjI h1 l2 d conjunct2 [OF t])
qed

section \<open>Harmony, overall index and originality\<close>

lemma clamp_range: "lo \<le> hi \<Longrightarrow> lo \<le> clamp v lo hi \<and> clamp v lo hi \<le> hi"
  by (simp add: clamp_def)

lemma round1_range:
  assumes "of_int a \<le> v" and "v \<le> of_int b"
  shows "of_int a \<le> round1 v \<and> round1 v \<le> of_int b"
proof -
  have "of_int (a * 10) \<le> v * 10" "v * 10 \<le> of_int (b * 10)" using assms by simp_all
  then have "of_int (a * 10) \<le> Math_round (v * 10)" "Math_round (v * 10) \<le> of_int (b * 10)"
    by (simp_all only: Math_round_ge Math_round_le)
  then show ?thesis by (simp add: round1_def)
qed


lemma co_harmony_range:
  "20 \<le> co_harmony s g fw ed \<and> co_harmony s g fw ed \<le> 100"
  using clamp_range [of 20 100] by (simp add: co_harmony_def Let_def)


lemma blend_nonneg:
  assumes "0 \<le> s" and "0 \<le> g"
  shows "0 \<le> weights_symmetry * s + weights_golden * g
               + weights_harmony * co_harmony s g fw ed"
  using assms co_harmony_range [of s g fw ed]
  by (simp add: weights_symmetry_def weights_golden_def weights_harmony_def)

lemma co_overall_Num:
  assumes "0 \<le> weights_symmetry * s + weights_golden * g
               + weights_harmony * co_harmony s g fw ed"
  shows "\<exists>v. co_overall s g fw ed = Num v \<and> 4 \<le> v \<and> v \<le> 10"
proof -
  let ?raw = "(weights_symmetry * s + weights_golden * g
               + weights_harmony * co_harmony s g fw ed) / 100"
  have "0 \<le> ?raw" using assms by simp
  then have eq: "co_overall s g fw ed = Num (clamp (4 + ?raw powr (18 / 10) * 9) 1 10)"
    by (simp add: co_overall_def Let_def Math_pow_def)
  have "0 \<le> ?raw powr (18 / 10)" by simp
  then have "4 \<le> clamp (4 + ?raw powr (18 / 10) * 9) 1 10"
    by (simp add: clamp_def)
  moreover have "clamp (4 + ?raw powr (18 / 10) * 9) 1 10 \<le> 10"
    using clamp_range [of 1 10] by simp
  ultimately show ?thesis using eq by simp
qed


lemma overall_in_range:
  assumes "0 \<le> weights_symmetry * s + weights_golden * g
               + weights_harmony * co_harmony s g fw ed"
  shows "\<exists>v. overall (computeOverall s g fw ed) = Num v \<and> 4 \<le> v \<and> v \<le> 10"
proof -
  obtain v where v: "co_overall s g fw ed = Num v" "4 \<le> v" "v \<le> 10"
    using co_overall_Num [OF assms] by blast
  then have "of_int 4 \<le> round1 v \<and> round1 v \<le> of_int 10"
    by (intro round1_range) simp_all
  then show ?thesis using v by (simp add: computeOverall_def Let_def)
qed



lemma ideal_face_baseScores:
  "\<exists>g. baseScores 1000 1000 ideal_face = Some (100, g, computeOverall 100 100 500 160)
       \<and> ratios g = targets g"
proof -
  have "calcSymmetryScore ideal_face = Some 100"
    by (intro calcSymmetryScore_mirrored symmetricPairs_bound ideal_face_mirrored)
       (simp add: ideal_face_def)
  then show ?thesis using ideal_face_golden by (auto simp: baseScores_def)
qed




text \<open>
  C10. For symmetry and golden in \<open>[0, 100]\<close> the returned overall index is at least 4:
  the blend is not negative, so \<open>4 + 9 * raw powr 1.8\<close> is at least 4, the clamp to
  \<open>[1, 10]\<close> does not lower it and the rounding to one decimal keeps it in \<open>[4, 10]\<close>.
\<close>

theorem overall_at_least_4:
  assumes "0 \<le> s" "s \<le> 100" "0 \<le> g" "g \<le> 100"
  shows "\<exists>v. overall (computeOverall s g fw ed) = Num v \<and> 4 \<le> v \<and> v \<le> 10"
  using assms(1,3) by (intro overall_in_range blend_nonneg)

theorem overall_at_least_4_witness:
  "(0::real) \<le> 0 \<and> (0::real) \<le> 100
   \<and> (\<exists>v. overall (computeOverall 0 0 0 0) = Num v \<and> 4 \<le> v \<and> v \<le> 10)"
  using overall_at_least_4 [of 0 0 0 0] by simp



text \<open>
  C9. With face width 0 \<open>computeOverall\<close> uses none of the three bands: the eye
  sub-score is the default 75 and the eye-spacing ratio is 0. The feedback then has three
  lines and no eye-spacing sentence (such a sentence appears only for a positive ratio),
  and the closing remark is the last line, as it is for every ratio.
\<close>

theorem zero_face_width:
  "fst (co_eye 0 ed) = 75 \<and> snd (co_eye 0 ed) = 0
   \<and> co_harmony s g 0 ed = clamp (4 / 10 * s + 4 / 10 * g + 2 / 10 * 75) 20 100
   \<and> feedback (computeOverall s g 0 ed) = buildFeedback s g 0
   \<and> length (buildFeedback s g 0) = 3
   \<and> EyeHarmonious \<notin> set (buildFeedback s g 0)
   \<and> EyeNarrow \<notin> set (buildFeedback s g 0)
   \<and> EyeWide \<notin> set (buildFeedback s g 0)
   \<and> last (buildFeedback s g 0) = Remark
   \<and> (\<forall>r. last (buildFeedback s g r) = Remark)
   \<and> (\<forall>r. set (buildFeedback s g r) \<inter> {EyeHarmonious, EyeNarrow, EyeWide} \<noteq> {} \<longrightarrow> 0 < r)"
  by (simp add: co_eye_def co_harmony_def computeOverall_def buildFeedback_def Let_def)

theorem zero_face_width_witness:
  "set (buildFeedback 95 80 (32 / 100)) \<inter> {EyeHarmonious, EyeNarrow, EyeWide} \<noteq> {}
   \<and> (0::real) < 32 / 100
   \<and> feedback (computeOverall 95 80 0 160) = [SymVeryHigh, GoldSlight, Remark]"
  using zero_face_width [of 160 95 80]
  by (simp add: buildFeedback_def idealMin_def idealMax_def)

section \<open>The end-to-end scenario\<close>

lemma computeOverall_perfect:
  assumes "0 < fw" and "ed / fw = 32 / 100"
  shows "fst (co_eye fw ed) = 100 \<and> harmony (computeOverall 100 100 fw ed) = 100
         \<and> overall (computeOverall 100 100 fw ed) = Num 10
         \<and> uniqueness (computeOverall 100 100 fw ed) = 79 / 10"
proof -
  have e: "co_eye fw ed = (100, 32 / 100)"
    using assms by (simp add: co_eye_def Let_def idealMin_def idealMax_def)
  have h: "co_harmony 100 100 fw ed = 100"
    by (simp add: co_harmony_def e Let_def clamp_def)
  have o: "co_overall 100 100 fw ed = Num 10"
    by (simp add: co_overall_def h Let_def clamp_def Math_pow_def
          weights_symmetry_def weights_golden_def weights_harmony_def)
  have u: "co_uniqueness 100 100 fw ed = 277 / 35"
    by (simp add: co_uniqueness_def h Let_def clamp_def)
  have r100: "Math_round 100 = 100" "Math_round 10000 = 10000"
    using Math_round_of_int [of 100] Math_round_of_int [of 10000] by simp_all
  have "\<lfloor>(554 / 7 :: real) + 1 / 2\<rfloor> = 79" by (rule floor_unique) simp_all
  then have r79: "Math_round (554 / 7) = 79" by (simp add: Math_round_def)
  show ?thesis
    by (simp add: computeOverall_def e h o u r79 Let_def round1_def round2_def r100)
qed

text \<open>
  C6 (amended). On a landmark set whose bilateral pairs are perfectly mirrored and whose
  five ratios are exactly their targets, the pipeline of \<^verbatim>\<open>analyze\<close> gives symmetry
  100, golden score 100, an eye-spacing ratio of 0.32 inside \<open>(0.28, 0.36)\<close> and so
  the eye sub-score 100, harmony 100, overall 10, and originality
  \<open>clamp (5 + 4 * (0.4 * 50/50 + 0.3 * 40/60 + 0.3 * 30/70)) 1 10 = 7.914...\<close>, returned
  as 7.9 (not 8.1).
\<close>

theorem end_to_end_ideal:
  assumes "baseScores w h lms = Some (s, g, out)"
    and "\<forall>(i, j) \<in> set symmetricPairs. lm_x (lms ! i) = 1 - lm_x (lms ! j)"
    and "ratios g = targets g"
  shows "s = 100 \<and> score g = 100
         \<and> 28 / 100 < eyeDist g / faceWidth g \<and> eyeDist g / faceWidth g < 36 / 100
         \<and> fst (co_eye (faceWidth g) (eyeDist g)) = 100
         \<and> harmony out = 100 \<and> overall out = Num 10 \<and> uniqueness out = 79 / 10"
proof -
  from assms(1) have sy: "calcSymmetryScore lms = Some s"
    and go: "analyzeGolden w h lms = Some g"
    and ou: "out = computeOverall s (score g) (faceWidth g) (eyeDist g)"
    by (auto simp: baseScores_def split: Option.bind_splits)
  have "calcSymmetryScore lms = Some 100"
    using calcSymmetryScore_mirrored symmetricPairs_bound analyzeGolden_length [OF go] assms(2)
    by blast
  then have s: "s = 100" using sy by simp
  have g: "score g = 100" using score_at_targets [OF go assms(3)] .
  have e: "0 < faceWidth g \<and> eyeDist g / faceWidth g = 32 / 100"
    using eye_ratio_at_targets [OF go assms(3)] .
  show ?thesis
    using computeOverall_perfect [of "faceWidth g" "eyeDist g"] e s g ou by simp
qed

theorem end_to_end_ideal_witness:
  "list_all (\<lambda>(i, j). lm_x (ideal_face ! i) = 1 - lm_x (ideal_face ! j)) symmetricPairs
   \<and> (\<exists>g. baseScores 1000 1000 ideal_face = Some (100, g, computeOverall 100 100 500 160)
     \<and> ratios g = targets g
     \<and> score g = 100 \<and> harmony (computeOverall 100 100 500 160) = 100
     \<and> overall (computeOverall 100 100 500 160) = Num 10
     \<and> uniqueness (computeOverall 100 100 500 160) = 79 / 10)"
proof -
  obtain g where g: "baseScores 1000 1000 ideal_face
      = Some (100, g, computeOverall 100 100 500 160)" "ratios g = targets g"
    using ideal_face_baseScores by blast
  have l: "list_all (\<lambda>(i, j). lm_x (ideal_face ! i) = 1 - lm_x (ideal_face ! j)) symmetricPairs"
    using ideal_face_mirrored by (simp only: list_all_iff)
  from end_to_end_ideal [OF g(1) ideal_face_mirrored g(2)] g l
  show ?thesis by blast
qed

theorem end_to_end_counterexample:
  "map_option (uniqueness \<circ> snd \<circ> snd) (baseScores 1000 1000 ideal_face) \<noteq> Some (81 / 10)"
proof -
  obtain g where "baseScores 1000 1000 ideal_face
      = Some (100, g, computeOverall 100 100 500 160)"
    using ideal_face_baseScores by blast
  moreover have "uniqueness (computeOverall 100 100 500 160) = 79 / 10"
    using computeOverall_perfect [of 500 160] by simp
  ultimately show ?thesis by simp
qed

section \<open>Rounding to the nearest double\<close>

lemma fl_0: "fl 0 = 0" by (simp add: fl_def)

lemma round_even_of_int: "round_even (of_int k) = k"
  by (simp add: round_even_def)

lemma round_even_floor: "\<lfloor>y\<rfloor> \<le> round_even y \<and> round_even y \<le> \<lfloor>y\<rfloor> + 1"
  by (simp add: round_even_def Let_def)

lemma round_even_ge: "of_int k \<le> y \<Longrightarrow> k \<le> round_even y"
proof -
  assume "of_int k \<le> y"
  then have "k \<le> \<lfloor>y\<rfloor>" by (simp add: le_floor_iff)
  then show ?thesis using round_even_floor [of y] by linarith
qed

lemma round_even_le: "y \<le> of_int k \<Longrightarrow> round_even y \<le> k"
proof -
  assume a: "y \<le> of_int k"
  show ?thesis
  proof (cases "y = of_int k")
    case True
    then show ?thesis by (simp add: round_even_of_int)
  next
    case False
    then have "y < of_int k" using a by simp
    then have "\<lfloor>y\<rfloor> < k" by (simp add: floor_less_iff)
    then show ?thesis by (auto simp: round_even_def Let_def)
  qed
qed

lemma binade:
  assumes "x \<noteq> 0"
  shows "2 powi \<lfloor>log 2 \<bar>x\<bar>\<rfloor> \<le> \<bar>x\<bar> \<and> \<bar>x\<bar> < 2 powi (\<lfloor>log 2 \<bar>x\<bar>\<rfloor> + 1)"
proof -
  have pos: "0 < \<bar>x\<bar>" using assms by simp
  have "(2::real) powr of_int k = 2 powi k" for k
    using powr_real_of_int' [of "2::real" k] by simp
  from this [of "\<lfloor>log 2 \<bar>x\<bar>\<rfloor>"] this [of "\<lfloor>log 2 \<bar>x\<bar>\<rfloor> + 1"] show ?thesis
    using floor_log_eq_powr_iff [of "\<bar>x\<bar>" 2 "\<lfloor>log 2 \<bar>x\<bar>\<rfloor>"] pos by simp
qed


lemma mantissa_pos:
  assumes "0 < x"
  shows "2 ^ 52 \<le> round_even (x / 2 powi (\<lfloor>log 2 \<bar>x\<bar>\<rfloor> - 52))
         \<and> round_even (x / 2 powi (\<lfloor>log 2 \<bar>x\<bar>\<rfloor> - 52)) \<le> 2 ^ 53"
proof -
  let ?e = "\<lfloor>log 2 \<bar>x\<bar>\<rfloor>"
  have b: "2 powi ?e \<le> x" "x < 2 powi (?e + 1)" using binade [of x] assms by simp_all
  have q: "0 < (2::real) powi (?e - 52)" by simp
  have e1: "(2::real) powi ?e = 2 ^ 52 * 2 powi (?e - 52)"
    using power_int_add [of "2::real" 52 "?e - 52"] by simp
  have e2: "(2::real) powi (?e + 1) = 2 ^ 53 * 2 powi (?e - 52)"
    using power_int_add [of "2::real" 53 "?e - 52"] by (simp add: algebra_simps)
  have "of_int (2 ^ 52) \<le> x / 2 powi (?e - 52)"
    using b(1) q unfolding e1 by (simp add: pos_le_divide_eq)
  moreover have "x / 2 powi (?e - 52) \<le> of_int (2 ^ 53)"
    using b(2) q unfolding e2 by (simp add: pos_divide_le_eq)
  ultimately show ?thesis using round_even_ge round_even_le by blast
qed

lemma fl_pos: "0 < x \<Longrightarrow> 0 < fl x"
proof -
  assume x: "0 < x"
  have "(0::int) < 2 ^ 52" by simp
  then have "0 < round_even (x / 2 powi (\<lfloor>log 2 \<bar>x\<bar>\<rfloor> - 52))"
    using mantissa_pos [OF x] by linarith
  then show ?thesis using x by (simp add: fl_def fl_at_def)
qed






lemma fl_nonneg: "0 \<le> x \<Longrightarrow> 0 \<le> fl x"
  using fl_pos [of x] fl_0 by (cases "x = 0") auto









section \<open>Jitter and the bootstrap\<close>



lemma rnd_bounded:
  assumes "0 \<le> src n" and "src n < 1" and "0 \<le> sigma"
  shows "\<bar>rnd src sigma n\<bar> \<le> sigma"
proof -
  have "\<bar>src n * 2 - 1\<bar> \<le> 1" using assms by (simp add: abs_le_iff)
  then have "\<bar>src n * 2 - 1\<bar> * sigma \<le> 1 * sigma"
    using assms(3) by (rule mult_right_mono)
  then show ?thesis using assms(3) by (simp add: rnd_def abs_mult)
qed

lemma jitterLandmarks_snd: "snd (jitterLandmarks src lms sigma n) = n + 2 * length lms"
  by (induction lms arbitrary: n) (simp_all add: Let_def case_prod_beta)

lemma jitterLandmarks_length: "length (fst (jitterLandmarks src lms sigma n)) = length lms"
  by (induction lms arbitrary: n) (simp_all add: Let_def case_prod_beta)

lemma jitterLandmarks_nth:
  "i < length lms \<Longrightarrow>
   fst (jitterLandmarks src lms sigma n) ! i =
     \<lparr>lm_x = clamp (lm_x (lms ! i) + rnd src sigma (n + 2 * i)) 0 1,
      lm_y = clamp (lm_y (lms ! i) + rnd src sigma (n + 2 * i + 1)) 0 1,
      lm_z = lm_z (lms ! i)\<rparr>"
proof (induction lms arbitrary: n i)
  case Nil
  then show ?case by simp
next
  case (Cons p ps)
  show ?case
  proof (cases i)
    case 0
    then show ?thesis by (simp add: Let_def case_prod_beta)
  next
    case (Suc k)
    then have "k < length ps" using Cons.prems by simp
    from Cons.IH [OF this, of "n + 2"] Suc show ?thesis
      by (simp add: Let_def case_prod_beta)
  qed
qed




lemma foldl_add_Num:
  "\<exists>t. foldl (lift2 d_add) (Num a) (replicate k (Num d)) = Num t"
  by (induction k arbitrary: a) simp_all

lemma mean_Num:
  "0 < k \<Longrightarrow> \<exists>m. mean (uncertaintyOf (replicate k (Num d))) = Num m"
  using foldl_add_Num [of 0 k d] by (auto simp: uncertaintyOf_def Let_def div_length_def)









lemma app_scalars_defined:
  assumes "454 < length lm"
  shows "(\<exists>s. symScalar lm = Some (Num s)) \<and> (\<exists>s. goldScalar w h lm = Some (Num s))
         \<and> (\<exists>s. harmScalar w h lm = Some (Num s)) \<and> (\<exists>s. overallScalar w h lm = Some (Num s))
         \<and> (\<exists>s. uniqScalar w h lm = Some (Num s))"
proof -
  obtain g where g: "analyzeGolden w h lm = Some g" "0 \<le> score g"
    using analyzeGolden_defined [OF assms] by blast
  obtain s where s: "calcSymmetryScore lm = Some s" "0 \<le> s"
    using calcSymmetryScore_nonneg [OF assms] by blast
  obtain v where v: "co_overall s (score g) (faceWidth g) (eyeDist g) = Num v"
    using co_overall_Num [OF blend_nonneg [OF s(2) g(2)]] by blast
  show ?thesis
    by (simp add: symScalar_def goldScalar_def harmScalar_def overallScalar_def uniqScalar_def
          g s computeOverall_def v Let_def)
qed






text \<open>
  C5. \<open>jitterLandmarks\<close> returns a copy of the same length, keeps \<^verbatim>\<open>z\<close>, and clamps
  every coordinate into \<open>[0, 1]\<close>. The noise it adds to a coordinate is
  \<open>(Math.random() * 2 - 1) * sigma\<close>: for draws in \<open>[0, 1)\<close> its magnitude never exceeds
  \<open>sigma\<close>. It is therefore uniform noise on \<open>[-sigma, sigma)\<close>, of standard deviation
  \<open>sigma / sqrt 3\<close>, and not the Gaussian noise of standard deviation \<open>sigma\<close> that the
  methodology documents.
\<close>

theorem jitter_noise_bounded:
  assumes "\<forall>k. 0 \<le> src k \<and> src k < 1" and "0 \<le> sigma" and "i < length lms"
  shows "length (fst (jitterLandmarks src lms sigma n)) = length lms
         \<and> (\<exists>dx dy. \<bar>dx\<bar> \<le> sigma \<and> \<bar>dy\<bar> \<le> sigma
              \<and> lm_x (fst (jitterLandmarks src lms sigma n) ! i)
                    = clamp (lm_x (lms ! i) + dx) 0 1
              \<and> lm_y (fst (jitterLandmarks src lms sigma n) ! i)
                    = clamp (lm_y (lms ! i) + dy) 0 1)
         \<and> 0 \<le> lm_x (fst (jitterLandmarks src lms sigma n) ! i)
         \<and> lm_x (fst (jitterLandmarks src lms sigma n) ! i) \<le> 1
         \<and> 0 \<le> lm_y (fst (jitterLandmarks src lms sigma n) ! i)
         \<and> lm_y (fst (jitterLandmarks src lms sigma n) ! i) \<le> 1
         \<and> lm_z (fst (jitterLandmarks src lms sigma n) ! i) = lm_z (lms ! i)"
proof -
  let ?q = "fst (jitterLandmarks src lms sigma n) ! i"
  have x: "lm_x ?q = clamp (lm_x (lms ! i) + rnd src sigma (n + 2 * i)) 0 1"
    and y: "lm_y ?q = clamp (lm_y (lms ! i) + rnd src sigma (n + 2 * i + 1)) 0 1"
    and z: "lm_z ?q = lm_z (lms ! i)"
    using assms(3) by (simp_all add: jitterLandmarks_nth)
  have bx: "\<bar>rnd src sigma (n + 2 * i)\<bar> \<le> sigma"
    and by': "\<bar>rnd src sigma (n + 2 * i + 1)\<bar> \<le> sigma"
    using assms(1,2) by (simp_all add: rnd_bounded)
  have "\<exists>dx dy. \<bar>dx\<bar> \<le> sigma \<and> \<bar>dy\<bar> \<le> sigma
          \<and> lm_x ?q = clamp (lm_x (lms ! i) + dx) 0 1
          \<and> lm_y ?q = clamp (lm_y (lms ! i) + dy) 0 1"
    using x y bx by' by blast
  moreover have "0 \<le> lm_x ?q \<and> lm_x ?q \<le> 1" unfolding x by (rule clamp_range) simp
  moreover have "0 \<le> lm_y ?q \<and> lm_y ?q \<le> 1" unfolding y by (rule clamp_range) simp
  ultimately show ?thesis using z jitterLandmarks_length by blast
qed

theorem jitter_noise_bounded_witness:
  "(\<forall>k::nat. (0::real) \<le> 3 / 4 \<and> (3 / 4 :: real) < 1) \<and> (0::real) \<le> 3 / 1000
   \<and> (0::nat) < length [pt (1 / 2) (1 / 2)]
   \<and> fst (jitterLandmarks (\<lambda>k. 3 / 4) [pt (1 / 2) (1 / 2)] (3 / 1000) 0)
        = [pt (5015 / 10000) (5015 / 10000)]
   \<and> (\<exists>dx dy. \<bar>dx\<bar> \<le> (3 / 1000 :: real) \<and> \<bar>dy\<bar> \<le> (3 / 1000 :: real)
        \<and> lm_x (fst (jitterLandmarks (\<lambda>k. 3 / 4) [pt (1 / 2) (1 / 2)] (3 / 1000) 0) ! 0)
              = clamp (lm_x ([pt (1 / 2) (1 / 2)] ! 0) + dx) 0 1
        \<and> lm_y (fst (jitterLandmarks (\<lambda>k. 3 / 4) [pt (1 / 2) (1 / 2)] (3 / 1000) 0) ! 0)
              = clamp (lm_y ([pt (1 / 2) (1 / 2)] ! 0) + dy) 0 1)"
proof -
  have h1: "\<forall>k::nat. (0::real) \<le> 3 / 4 \<and> (3 / 4 :: real) < 1" by simp
  have h2: "(0::real) \<le> 3 / 1000" by simp
  have h3: "(0::nat) < length [pt (1 / 2) (1 / 2)]" by simp
  have e: "fst (jitterLandmarks (\<lambda>k. 3 / 4) [pt (1 / 2) (1 / 2)] (3 / 1000) 0)
             = [pt (5015 / 10000) (5015 / 10000)]"
    by (simp add: pt_def rnd_def clamp_def)
  from jitter_noise_bounded [where src = "\<lambda>k. 3 / 4" and sigma = "3 / 1000"
      and lms = "[pt (1 / 2) (1 / 2)]" and i = 0 and n = 0, OF h1 h2 h3]
  have "\<exists>dx dy. \<bar>dx\<bar> \<le> (3 / 1000 :: real) \<and> \<bar>dy\<bar> \<le> (3 / 1000 :: real)
        \<and> lm_x (fst (jitterLandmarks (\<lambda>k. 3 / 4) [pt (1 / 2) (1 / 2)] (3 / 1000) 0) ! 0)
              = clamp (lm_x ([pt (1 / 2) (1 / 2)] ! 0) + dx) 0 1
        \<and> lm_y (fst (jitterLandmarks (\<lambda>k. 3 / 4) [pt (1 / 2) (1 / 2)] (3 / 1000) 0) ! 0)
              = clamp (lm_y ([pt (1 / 2) (1 / 2)] ! 0) + dy) 0 1"
    by (elim conjE)
  with h1 h2 h3 e show ?thesis by (intro conjI)
qed

end
